theory Spec2Isabelle
  imports Main "HOL-Library.Word"
begin

unbundle bit_operations_syntax

section \<open>The mock J2534 pass-through DLL (\<^verbatim>\<open>tools/mock_j2534/op20pt32.c\<close>)\<close>

text \<open>
  The C file is a stub of the OpenPort 2.0 J2534 DLL.  The write entry point
  \<open>PassThruWriteMsgs\<close> looks at the first message only, picks a scripted UDS reply and
  leaves it in a one-slot buffer (\<open>pending_response\<close>, \<open>has_pending\<close>); the read entry
  point \<open>PassThruReadMsgs\<close> hands that buffer out once.  The embedding below follows the
  C text function by function: the three statics are a record that every entry point
  takes and returns, pointer arguments that the code tests against NULL are options, and
  what \<open>log_msg\<close> prints is kept as a list of (format string, arguments) entries.
\<close>

subsection \<open>Types and constants\<close>

type_synonym BYTE = "8 word"
type_synonym WORD = "16 word"
type_synonym DWORD = "32 word"
type_synonym LONG = "32 word"

definition STATUS_NOERROR :: LONG where
  "STATUS_NOERROR = 0"

definition STATUS_ERR_FAILED :: LONG where
  "STATUS_ERR_FAILED = 0x1F"

definition ISO15765 :: DWORD where
  "ISO15765 = 6"

text \<open>
  \<open>PASSTHRU_MSG\<close>: six DWORD fields and the array \<open>BYTE Data[4128]\<close>.  The array is a
  list; \<open>wf_msg\<close> says that it has the 4128 cells the C type gives it.  Every index the
  code reads (5, 6, 7, 8 and the first 32 cells in \<open>log_bytes\<close>) is inside the array
  whatever \<open>DataSize\<close> says, so a read past \<open>DataSize\<close> returns whatever the caller's
  buffer holds there.
\<close>

record PASSTHRU_MSG =
  ProtocolID :: DWORD
  RxStatus :: DWORD
  TxFlags :: DWORD
  Timestamp :: DWORD
  DataSize :: DWORD
  ExtraDataIndex :: DWORD
  Data :: "BYTE list"

definition Data_cells :: nat where
  "Data_cells = 4128"

definition sizeof_PASSTHRU_MSG :: DWORD where
  "sizeof_PASSTHRU_MSG = 6 * 4 + 4128"

definition wf_msg :: "PASSTHRU_MSG \<Rightarrow> bool" where
  "wf_msg m = (length (Data m) = Data_cells)"

text \<open>An object filled with zero bytes: what \<open>memset(msg, 0, sizeof(PASSTHRU_MSG))\<close> leaves,
  and what the static buffer holds when the DLL is loaded.\<close>

definition zero_msg :: PASSTHRU_MSG where
  "zero_msg = \<lparr>ProtocolID = 0, RxStatus = 0, TxFlags = 0, Timestamp = 0, DataSize = 0,
     ExtraDataIndex = 0, Data = replicate Data_cells 0\<rparr>"

subsection \<open>Logging\<close>

text \<open>
  \<open>log_msg\<close> formats its arguments to the log file (when one could be opened) and always
  to stderr.  The model keeps the stderr stream, as the list of calls made: the format
  string and the values passed.  The format strings are the ones of the source, with its
  two non-ASCII characters written in ASCII (the arrow as \<open>->\<close>, the dash as \<open>-\<close>).
\<close>

datatype log_arg = ArgB BYTE | ArgW WORD | ArgD DWORD | ArgS string

type_synonym log_entry = "string \<times> log_arg list"

record dll_state =
  stderr_log :: "log_entry list"
  pending_response :: PASSTHRU_MSG
  pending_response_len :: DWORD
  has_pending :: int

definition init_state :: dll_state where
  "init_state = \<lparr>stderr_log = [], pending_response = zero_msg, pending_response_len = 0,
     has_pending = 0\<rparr>"

definition log_msg :: "string \<Rightarrow> log_arg list \<Rightarrow> dll_state \<Rightarrow> dll_state" where
  "log_msg fmt args s = s\<lparr>stderr_log := stderr_log s @ [(fmt, args)]\<rparr>"

text \<open>\<open>for (DWORD i = 0; i < len && i < 32; i++) log_msg("%02X ", data[i]);\<close>\<close>

definition log_bytes :: "string \<Rightarrow> BYTE list \<Rightarrow> DWORD \<Rightarrow> dll_state \<Rightarrow> dll_state" where
  "log_bytes prefix data len s =
     (let s1 = log_msg ''%s [%lu bytes]: '' [ArgS prefix, ArgD len] s;
          s2 = fold (\<lambda>i. log_msg ''%02X '' [ArgB (data ! i)]) [0 ..< min (unat len) 32] s1
      in log_msg ''\<newline>'' [] s2)"

subsection \<open>Building the response frame\<close>

text \<open>\<open>memcpy(dst + off, src, n)\<close> on arrays as lists.\<close>

definition memcpy :: "'a list \<Rightarrow> nat \<Rightarrow> 'a list \<Rightarrow> nat \<Rightarrow> 'a list" where
  "memcpy dst off src n = take off dst @ take n src @ drop (off + n) dst"

text \<open>
  \<open>build_can_response\<close> overwrites the whole object it is given, so the model returns the
  object it builds: zeroed, protocol ISO 15765, CAN id 0x7E8 in \<open>Data[0..3]\<close>, the UDS
  bytes from \<open>Data[4]\<close> on, \<open>DataSize = 4 + uds_len\<close>.
\<close>

definition build_can_response :: "BYTE list \<Rightarrow> DWORD \<Rightarrow> PASSTHRU_MSG" where
  "build_can_response uds_payload uds_len =
     (let msg0 = zero_msg;
          msg1 = msg0\<lparr>ProtocolID := ISO15765\<rparr>;
          msg2 = msg1\<lparr>Data := (Data msg1)[0 := 0x00, 1 := 0x00, 2 := 0x07, 3 := 0xE8]\<rparr>;
          msg3 = msg2\<lparr>Data := memcpy (Data msg2) 4 uds_payload (unat uds_len)\<rparr>;
          msg4 = msg3\<lparr>DataSize := 4 + uds_len\<rparr>
      in msg4\<lparr>RxStatus := 0\<rparr>)"

subsection \<open>The write entry point\<close>

text \<open>
  \<open>pMsg\<close> and \<open>pNumMsgs\<close> are pointers: \<open>None\<close> is NULL, \<open>Some\<close> carries what is pointed
  to (the message array, the count).  Only \<open>pMsg[0]\<close> is looked at.  The function
  returns its status and the new state; it writes nothing through its pointers.
\<close>

definition PassThruWriteMsgs ::
  "DWORD \<Rightarrow> PASSTHRU_MSG list option \<Rightarrow> DWORD option \<Rightarrow> DWORD \<Rightarrow> dll_state \<Rightarrow> LONG \<times> dll_state"
where
  "PassThruWriteMsgs ChannelID pMsg pNumMsgs Timeout s =
     (case pMsg of
        None \<Rightarrow> (STATUS_NOERROR, s)
      | Some msgs \<Rightarrow>
         (case pNumMsgs of
            None \<Rightarrow> (STATUS_NOERROR, s)
          | Some NumMsgs \<Rightarrow>
              if NumMsgs = 0 then (STATUS_NOERROR, s)
              else
                let m = msgs ! 0;
                    data = Data m;
                    len = DataSize m;
                    s1 = log_bytes ''TX (EcuFlash->ECU)'' data len s
                in
                if len \<ge> 6 then
                  let uds_svc = data ! 5;
                      uds_sf = data ! 6
                  in
                  if uds_svc = 0x10 then
                    let s2 = log_msg ''  -> DiagnosticSessionControl(0x%02X)\<newline>'' [ArgB uds_sf] s1;
                        resp = [0x02, 0x50, uds_sf]
                    in (STATUS_NOERROR,
                        s2\<lparr>pending_response := build_can_response resp 3,
                           pending_response_len := sizeof_PASSTHRU_MSG,
                           has_pending := 1\<rparr>)
                  else if uds_svc = 0x27 \<and> uds_sf = 0x03 then
                    let s2 = log_msg
                          ''  -> SecurityAccess requestSeed (write-level, subfunction 0x03)\<newline>'' [] s1;
                        s3 = log_msg ''  -> Responding with seed = 0x12 0x34\<newline>'' [] s2;
                        resp = [0x04, 0x67, 0x03, 0x12, 0x34]
                    in (STATUS_NOERROR,
                        s3\<lparr>pending_response := build_can_response resp 5,
                           pending_response_len := sizeof_PASSTHRU_MSG,
                           has_pending := 1\<rparr>)
                  else if uds_svc = 0x27 \<and> uds_sf = 0x04 \<and> len \<ge> 8 then
                    let kh = data ! 7;
                        kl = data ! 8;
                        key = (ucast (push_bit 8 (ucast kh :: DWORD) OR ucast kl) :: WORD);
                        s2 = log_msg
                          ''  -> SecurityAccess sendKey (write-level, subfunction 0x04)\<newline>'' [] s1;
                        s3 = log_msg
                          ''  *** WRITE SESSION KEY for seed=0x1234: KH=0x%02X KL=0x%02X (key=0x%04X) ***\<newline>''
                          [ArgB kh, ArgB kl, ArgW key] s2;
                        s4 = log_msg ''  *** key16 = 0x%04X ***\<newline>'' [ArgW key] s3;
                        read_key = ((0x1234 :: DWORD) * 0x4081 + 0x1234) AND 0xFFFF;
                        s5 = log_msg ''  (Read-session formula gives: 0x%04lX - %s)\<newline>''
                          [ArgD read_key,
                           ArgS (if key = (ucast read_key :: WORD) then ''MATCHES read-session!''
                                 else ''DIFFERENT from read-session'')] s4;
                        resp = [0x02, 0x67, 0x04]
                    in (STATUS_NOERROR,
                        s5\<lparr>pending_response := build_can_response resp 3,
                           pending_response_len := sizeof_PASSTHRU_MSG,
                           has_pending := 1\<rparr>)
                  else if uds_svc = 0x34 then
                    let s2 = log_msg ''  -> RequestDownload\<newline>'' [] s1;
                        resp = [0x03, 0x74, 0x20, 0x0F]
                    in (STATUS_NOERROR,
                        s2\<lparr>pending_response := build_can_response resp 4,
                           pending_response_len := sizeof_PASSTHRU_MSG,
                           has_pending := 1\<rparr>)
                  else
                    let s2 = log_msg
                          ''  -> Unknown UDS service 0x%02X, sending generic positive\<newline>''
                          [ArgB uds_svc] s1;
                        resp = [0x02, uds_svc + 0x40, uds_sf]
                    in (STATUS_NOERROR,
                        s2\<lparr>pending_response := build_can_response resp 3,
                           pending_response_len := sizeof_PASSTHRU_MSG,
                           has_pending := 1\<rparr>)
                else (STATUS_NOERROR, s1)))"

subsection \<open>The read entry point\<close>

text \<open>
  The function returns its status, the caller's message array and count as it leaves
  them, and the new state.  \<open>memcpy(&pMsg[0], pending_response, sizeof(PASSTHRU_MSG))\<close>
  replaces the first cell of the caller's array.
\<close>

definition PassThruReadMsgs ::
  "DWORD \<Rightarrow> PASSTHRU_MSG list option \<Rightarrow> DWORD option \<Rightarrow> DWORD \<Rightarrow> dll_state
     \<Rightarrow> LONG \<times> PASSTHRU_MSG list option \<times> DWORD option \<times> dll_state"
where
  "PassThruReadMsgs ChannelID pMsg pNumMsgs Timeout s =
     (case pMsg of
        None \<Rightarrow> (STATUS_NOERROR, pMsg, pNumMsgs, s)
      | Some msgs \<Rightarrow>
         (case pNumMsgs of
            None \<Rightarrow> (STATUS_NOERROR, pMsg, pNumMsgs, s)
          | Some NumMsgs \<Rightarrow>
              if has_pending s \<noteq> 0 \<and> NumMsgs > 0 then
                let msgs' = msgs[0 := pending_response s];
                    m = msgs' ! 0;
                    s1 = log_bytes ''RX (ECU->EcuFlash)'' (Data m) (DataSize m) s
                in (STATUS_NOERROR, Some msgs', Some 1, s1\<lparr>has_pending := 0\<rparr>)
              else (STATUS_NOERROR, Some msgs, Some 0, s)))"

subsection \<open>Observers used to state the properties\<close>

text \<open>
  The mailbox is the three statics that couple the two entry points.  The diagnostic
  payload of a frame is what follows the four bytes of CAN id, up to \<open>DataSize\<close>: the
  ISO 15765 length byte and the UDS bytes.
\<close>

definition mailbox :: "dll_state \<Rightarrow> PASSTHRU_MSG \<times> DWORD \<times> int" where
  "mailbox s = (pending_response s, pending_response_len s, has_pending s)"

definition uds_payload_of :: "PASSTHRU_MSG \<Rightarrow> BYTE list" where
  "uds_payload_of m = take (unat (DataSize m) - 4) (drop 4 (Data m))"

text \<open>The results of a read: status, the caller's first message, the caller's count, the state.\<close>

definition read_status :: "LONG \<times> PASSTHRU_MSG list option \<times> DWORD option \<times> dll_state \<Rightarrow> LONG" where
  "read_status r = fst r"

definition read_msgs :: "LONG \<times> PASSTHRU_MSG list option \<times> DWORD option \<times> dll_state
    \<Rightarrow> PASSTHRU_MSG list option" where
  "read_msgs r = fst (snd r)"

definition read_count :: "LONG \<times> PASSTHRU_MSG list option \<times> DWORD option \<times> dll_state
    \<Rightarrow> DWORD option" where
  "read_count r = fst (snd (snd r))"

definition read_state :: "LONG \<times> PASSTHRU_MSG list option \<times> DWORD option \<times> dll_state
    \<Rightarrow> dll_state" where
  "read_state r = snd (snd (snd r))"

text \<open>
  A caller's message whose frame is the bytes \<open>bs\<close>: \<open>DataSize\<close> is their number, they
  sit at the start of \<open>Data\<close>, and \<open>rest\<close> is what the caller's buffer holds behind them
  (for the 4128 cells of the C array, \<open>length bs + length rest = 4128\<close>).  The other
  fields are those of \<open>m\<close>.
\<close>

definition request :: "BYTE list \<Rightarrow> BYTE list \<Rightarrow> PASSTHRU_MSG \<Rightarrow> PASSTHRU_MSG" where
  "request bs rest m = m\<lparr>DataSize := of_nat (length bs), Data := bs @ rest\<rparr>"

text \<open>The same with a zeroed header and a buffer that is zero behind the frame: the
  concrete requests used as examples.\<close>

definition zero_request :: "BYTE list \<Rightarrow> PASSTHRU_MSG" where
  "zero_request bs = request bs (replicate (Data_cells - length bs) 0) zero_msg"

section \<open>Basic facts\<close>

lemma log_msg_fields [simp]:
  "pending_response (log_msg f a s) = pending_response s"
  "pending_response_len (log_msg f a s) = pending_response_len s"
  "has_pending (log_msg f a s) = has_pending s"
  "stderr_log (log_msg f a s) = stderr_log s @ [(f, a)]"
  by (simp_all add: log_msg_def)

lemma fold_log_msg_fields:
  "pending_response (fold (\<lambda>i. log_msg f (g i)) is s) = pending_response s \<and>
   pending_response_len (fold (\<lambda>i. log_msg f (g i)) is s) = pending_response_len s \<and>
   has_pending (fold (\<lambda>i. log_msg f (g i)) is s) = has_pending s"
  by (induction "is" arbitrary: s) simp_all

lemma log_bytes_fields [simp]:
  "pending_response (log_bytes p d n s) = pending_response s"
  "pending_response_len (log_bytes p d n s) = pending_response_len s"
  "has_pending (log_bytes p d n s) = has_pending s"
  by (simp_all add: log_bytes_def Let_def fold_log_msg_fields)

lemma fold_log_msg_prefix:
  "\<exists>es. stderr_log (fold (\<lambda>i. log_msg f (g i)) is s) = stderr_log s @ es"
proof (induction "is" arbitrary: s)
  case Nil
  show ?case by simp
next
  case (Cons i "is")
  obtain es where "stderr_log (fold (\<lambda>i. log_msg f (g i)) is (log_msg f (g i) s))
      = stderr_log (log_msg f (g i) s) @ es"
    using Cons.IH by blast
  then have "stderr_log (fold (\<lambda>i. log_msg f (g i)) (i # is) s) = stderr_log s @ ((f, g i) # es)"
    by simp
  then show ?case by blast
qed

lemma log_bytes_prefix:
  "\<exists>es. stderr_log (log_bytes p d n s) = stderr_log s @ es"
proof -
  obtain es where
    "stderr_log (fold (\<lambda>i. log_msg ''%02X '' [ArgB (d ! i)]) [0 ..< min (unat n) 32]
        (log_msg ''%s [%lu bytes]: '' [ArgS p, ArgD n] s))
     = stderr_log (log_msg ''%s [%lu bytes]: '' [ArgS p, ArgD n] s) @ es"
    using fold_log_msg_prefix [of _ "\<lambda>i. [ArgB (d ! i)]"] by blast
  then show ?thesis
    by (simp add: log_bytes_def Let_def)
qed

lemma replicate_cells:
  "replicate Data_cells (0::BYTE) = 0 # 0 # 0 # 0 # replicate 4124 0"
proof -
  have "replicate Data_cells (0::BYTE) = replicate 4 0 @ replicate 4124 0"
    unfolding Data_cells_def replicate_add [symmetric] by simp
  then show ?thesis
    by (simp add: numeral_eq_Suc)
qed

lemma memcpy_append:
  "length a = off \<Longrightarrow> length src = n \<Longrightarrow> memcpy (a @ r) off src n = a @ src @ drop n r"
  by (simp add: memcpy_def)

lemma build_can_response_Data:
  assumes "length p = unat n"
  shows "Data (build_can_response p n) = [0x00, 0x00, 0x07, 0xE8] @ p @ replicate (4124 - unat n) 0"
proof -
  have "Data (build_can_response p n)
      = memcpy ([0x00, 0x00, 0x07, 0xE8] @ replicate 4124 0) 4 p (unat n)"
    by (simp add: build_can_response_def Let_def zero_msg_def replicate_cells)
  also have "\<dots> = [0x00, 0x00, 0x07, 0xE8] @ p @ drop (unat n) (replicate 4124 0)"
    using assms by (intro memcpy_append) simp_all
  finally show ?thesis by simp
qed

lemma build_can_response_DataSize [simp]:
  "DataSize (build_can_response p n) = 4 + n"
  by (simp add: build_can_response_def Let_def)

lemma uds_payload_of_build:
  assumes "length p = unat n" "unat (4 + n) = 4 + unat n"
  shows "uds_payload_of (build_can_response p n) = p"
  using assms
  by (simp add: uds_payload_of_def build_can_response_Data)

section \<open>The write path, branch by branch\<close>

lemma write_status:
  "fst (PassThruWriteMsgs c p n t s) = STATUS_NOERROR"
  by (simp add: PassThruWriteMsgs_def Let_def split: option.splits)

lemma write_short:
  assumes "DataSize m < 6" "n \<noteq> 0"
  shows "snd (PassThruWriteMsgs c (Some (m # ms)) (Some n) t s)
    = log_bytes ''TX (EcuFlash->ECU)'' (Data m) (DataSize m) s"
  using assms by (simp add: PassThruWriteMsgs_def Let_def)

lemma write_session:
  assumes "6 \<le> DataSize m" "n \<noteq> 0" "Data m ! 5 = 0x10"
  shows "snd (PassThruWriteMsgs c (Some (m # ms)) (Some n) t s)
    = (log_msg ''  -> DiagnosticSessionControl(0x%02X)\<newline>'' [ArgB (Data m ! 6)]
        (log_bytes ''TX (EcuFlash->ECU)'' (Data m) (DataSize m) s))
      \<lparr>pending_response := build_can_response [0x02, 0x50, Data m ! 6] 3,
       pending_response_len := sizeof_PASSTHRU_MSG, has_pending := 1\<rparr>"
  using assms by (simp add: PassThruWriteMsgs_def Let_def)

lemma write_seed:
  assumes "6 \<le> DataSize m" "n \<noteq> 0" "Data m ! 5 = 0x27" "Data m ! 6 = 0x03"
  shows "snd (PassThruWriteMsgs c (Some (m # ms)) (Some n) t s)
    = (log_msg ''  -> Responding with seed = 0x12 0x34\<newline>'' []
        (log_msg ''  -> SecurityAccess requestSeed (write-level, subfunction 0x03)\<newline>'' []
          (log_bytes ''TX (EcuFlash->ECU)'' (Data m) (DataSize m) s)))
      \<lparr>pending_response := build_can_response [0x04, 0x67, 0x03, 0x12, 0x34] 5,
       pending_response_len := sizeof_PASSTHRU_MSG, has_pending := 1\<rparr>"
  using assms by (simp add: PassThruWriteMsgs_def Let_def)

lemma write_sendkey:
  assumes "6 \<le> DataSize m" "n \<noteq> 0" "Data m ! 5 = 0x27" "Data m ! 6 = 0x04" "8 \<le> DataSize m"
  shows "snd (PassThruWriteMsgs c (Some (m # ms)) (Some n) t s)
    = (log_msg ''  (Read-session formula gives: 0x%04lX - %s)\<newline>''
         [ArgD (((0x1234 :: DWORD) * 0x4081 + 0x1234) AND 0xFFFF),
          ArgS (if (ucast (push_bit 8 (ucast (Data m ! 7) :: DWORD) OR ucast (Data m ! 8)) :: WORD)
                   = (ucast (((0x1234 :: DWORD) * 0x4081 + 0x1234) AND 0xFFFF) :: WORD)
                then ''MATCHES read-session!'' else ''DIFFERENT from read-session'')]
        (log_msg ''  *** key16 = 0x%04X ***\<newline>''
           [ArgW (ucast (push_bit 8 (ucast (Data m ! 7) :: DWORD) OR ucast (Data m ! 8)))]
          (log_msg ''  *** WRITE SESSION KEY for seed=0x1234: KH=0x%02X KL=0x%02X (key=0x%04X) ***\<newline>''
             [ArgB (Data m ! 7), ArgB (Data m ! 8),
              ArgW (ucast (push_bit 8 (ucast (Data m ! 7) :: DWORD) OR ucast (Data m ! 8)))]
            (log_msg ''  -> SecurityAccess sendKey (write-level, subfunction 0x04)\<newline>'' []
              (log_bytes ''TX (EcuFlash->ECU)'' (Data m) (DataSize m) s)))))
      \<lparr>pending_response := build_can_response [0x02, 0x67, 0x04] 3,
       pending_response_len := sizeof_PASSTHRU_MSG, has_pending := 1\<rparr>"
  using assms by (simp add: PassThruWriteMsgs_def Let_def)

lemma write_download:
  assumes "6 \<le> DataSize m" "n \<noteq> 0" "Data m ! 5 = 0x34"
  shows "snd (PassThruWriteMsgs c (Some (m # ms)) (Some n) t s)
    = (log_msg ''  -> RequestDownload\<newline>'' []
          (log_bytes ''TX (EcuFlash->ECU)'' (Data m) (DataSize m) s))
      \<lparr>pending_response := build_can_response [0x03, 0x74, 0x20, 0x0F] 4,
       pending_response_len := sizeof_PASSTHRU_MSG, has_pending := 1\<rparr>"
  using assms by (simp add: PassThruWriteMsgs_def Let_def)

lemma write_generic:
  assumes "6 \<le> DataSize m" "n \<noteq> 0" "Data m ! 5 \<noteq> 0x10" "Data m ! 5 \<noteq> 0x34"
    "\<not> (Data m ! 5 = 0x27 \<and> Data m ! 6 = 0x03)"
    "\<not> (Data m ! 5 = 0x27 \<and> Data m ! 6 = 0x04 \<and> 8 \<le> DataSize m)"
  shows "snd (PassThruWriteMsgs c (Some (m # ms)) (Some n) t s)
    = (log_msg ''  -> Unknown UDS service 0x%02X, sending generic positive\<newline>'' [ArgB (Data m ! 5)]
          (log_bytes ''TX (EcuFlash->ECU)'' (Data m) (DataSize m) s))
      \<lparr>pending_response := build_can_response [0x02, Data m ! 5 + 0x40, Data m ! 6] 3,
       pending_response_len := sizeof_PASSTHRU_MSG, has_pending := 1\<rparr>"
  using assms by (auto simp add: PassThruWriteMsgs_def Let_def)

text \<open>A frame of six bytes or more fills the mailbox with an object that depends on the
  message alone: not on the state before, nor on the other arguments.\<close>

lemma write_mailbox_indep:
  assumes "6 \<le> DataSize m" "n \<noteq> 0" "n' \<noteq> 0"
  shows "mailbox (snd (PassThruWriteMsgs c (Some (m # ms)) (Some n) t s))
       = mailbox (snd (PassThruWriteMsgs c' (Some (m # ms')) (Some n') t' s'))"
  using assms
  by (simp add: PassThruWriteMsgs_def Let_def mailbox_def)

section \<open>The read path\<close>

lemma read_take:
  assumes "has_pending s \<noteq> 0" "0 < k"
  shows "PassThruReadMsgs c (Some (b # bs)) (Some k) t s
    = (STATUS_NOERROR, Some (pending_response s # bs), Some 1,
       (log_bytes ''RX (ECU->EcuFlash)'' (Data (pending_response s)) (DataSize (pending_response s)) s)
         \<lparr>has_pending := 0\<rparr>)"
  using assms by (simp add: PassThruReadMsgs_def Let_def)

lemma read_nothing:
  assumes "has_pending s = 0 \<or> k = 0"
  shows "PassThruReadMsgs c (Some bufs) (Some k) t s = (STATUS_NOERROR, Some bufs, Some 0, s)"
  using assms by (auto simp add: PassThruReadMsgs_def Let_def)

lemma read_projections [simp]:
  "read_status (a, b, c, d) = a"
  "read_msgs (a, b, c, d) = b"
  "read_count (a, b, c, d) = c"
  "read_state (a, b, c, d) = d"
  by (simp_all add: read_status_def read_msgs_def read_count_def read_state_def)


section \<open>The key arithmetic\<close>

lemma key_bits_disjoint:
  "push_bit 8 (ucast (kh::BYTE) :: DWORD) AND ucast (kl::BYTE) = 0"
  by (rule bit_eqI) (auto simp: bit_simps dest: bit_imp_le_length)

lemma key_or_eq_add:
  "push_bit 8 (ucast (kh::BYTE) :: DWORD) OR ucast (kl::BYTE) = ucast kh * 256 + ucast kl"
  using disjunctive_add_eq_or [OF key_bits_disjoint, of kh kl] by (simp add: push_bit_eq_mult)

lemma byte_less: "unat (b::BYTE) < 256"
  using unsigned_less [of b, where 'a = nat] by simp

lemma unat_key_dword:
  "unat (ucast (kh::BYTE) * 256 + ucast (kl::BYTE) :: DWORD) = unat kh * 256 + unat kl"
  using byte_less [of kh] byte_less [of kl]
  by (simp add: unat_word_ariths unsigned_ucast_eq take_bit_eq_mod)

lemma unat_key:
  "unat (ucast (push_bit 8 (ucast (kh::BYTE) :: DWORD) OR ucast (kl::BYTE)) :: WORD)
     = unat kh * 256 + unat kl"
  using byte_less [of kh] byte_less [of kl]
  by (simp add: key_or_eq_add unsigned_ucast_eq [of "_ :: DWORD"] unat_key_dword take_bit_eq_mod)

lemma key_less: "unat (kh::BYTE) * 256 + unat (kl::BYTE) < 65536"
  using byte_less [of kh] byte_less [of kl] by simp

lemma key_eq_of_nat:
  "(ucast (push_bit 8 (ucast (kh::BYTE) :: DWORD) OR ucast (kl::BYTE)) :: WORD)
     = of_nat (unat kh * 256 + unat kl)"
proof -
  have "unat (of_nat (unat kh * 256 + unat kl) :: WORD) = unat kh * 256 + unat kl"
    by (subst unat_of_nat) (use key_less [of kh kl] in simp)
  then show ?thesis
    by (simp only: word_unat_eq_iff [where 'a = 16] unat_key)
qed

lemma read_key_value:
  "((0x1234 :: DWORD) * 0x4081 + 0x1234) AND 0xFFFF = 0x3E68"
  by simp

lemma key_matches_iff:
  "((ucast (push_bit 8 (ucast (kh::BYTE) :: DWORD) OR ucast (kl::BYTE)) :: WORD)
      = (ucast (0x3E68 :: DWORD) :: WORD))
   = (unat kh * 256 + unat kl = 0x3E68)"
  by (simp add: word_unat_eq_iff [where 'a = 16] unat_key)

lemma request_fields [simp]:
  "DataSize (request bs rest m) = of_nat (length bs)"
  "Data (request bs rest m) = bs @ rest"
  by (simp_all add: request_def)

lemma write_long_has_pending:
  assumes "6 \<le> DataSize m" "n \<noteq> 0"
  shows "has_pending (snd (PassThruWriteMsgs c (Some (m # ms)) (Some n) t s)) = 1"
  using assms by (simp add: PassThruWriteMsgs_def Let_def)

lemma zero_request_fields [simp]:
  "DataSize (zero_request bs) = of_nat (length bs)"
  "Data (zero_request bs) = bs @ replicate (Data_cells - length bs) 0"
  by (simp_all add: zero_request_def)

lemma wf_zero_request:
  "length bs \<le> Data_cells \<Longrightarrow> wf_msg (zero_request bs)"
  by (simp add: wf_msg_def)

lemma positive_sid_not_7F:
  "svc \<noteq> 0x3F \<Longrightarrow> svc + 0x40 \<noteq> (0x7F :: BYTE)"
proof
  assume a: "svc \<noteq> 0x3F" and b: "svc + 0x40 = (0x7F :: BYTE)"
  from b have "svc + 0x40 - 0x40 = (0x7F :: BYTE) - 0x40" by (rule arg_cong)
  then have "svc = 0x3F" by simp
  with a show False by blast
qed

lemma uds_payload_of_build3 [simp]:
  "uds_payload_of (build_can_response [a, b, c] 3) = [a, b, c]"
  by (simp add: uds_payload_of_build)

lemma uds_payload_of_build4 [simp]:
  "uds_payload_of (build_can_response [a, b, c, d] 4) = [a, b, c, d]"
  by (simp add: uds_payload_of_build)

lemma uds_payload_of_build5 [simp]:
  "uds_payload_of (build_can_response [a, b, c, d, e] 5) = [a, b, c, d, e]"
  by (simp add: uds_payload_of_build)

lemma le_6_if_le_8: "8 \<le> (x::DWORD) \<Longrightarrow> 6 \<le> x"
  by (rule order_trans [of 6 8]) simp_all

section \<open>Properties of the specification\<close>

subsection \<open>Session control round trip\<close>

text \<open>
  Claim C3.  Writing the request frame \<open>00 00 07 E0 02 10 03\<close> (whatever the rest of the
  caller's buffer, the other header fields, the channel and the state before) returns
  success and stores a response whose diagnostic payload is \<open>02 50 03\<close>.  The next read
  returns success, sets the count to one, puts that response in the caller's first
  message and empties the mailbox.  A second read at once returns success with a count
  of zero and leaves the caller's messages as they were.
\<close>

theorem session_control_round_trip:
  "let w = PassThruWriteMsgs c
             (Some (request [0x00, 0x00, 0x07, 0xE0, 0x02, 0x10, 0x03] rest m # ms)) (Some 1) t s;
       r1 = PassThruReadMsgs c (Some (b1 # bs1)) (Some 1) t (snd w);
       r2 = PassThruReadMsgs c (Some (b2 # bs2)) (Some 1) t (read_state r1)
   in fst w = STATUS_NOERROR
    \<and> has_pending (snd w) = 1
    \<and> uds_payload_of (pending_response (snd w)) = [0x02, 0x50, 0x03]
    \<and> read_status r1 = STATUS_NOERROR
    \<and> read_count r1 = Some 1
    \<and> read_msgs r1 = Some (pending_response (snd w) # bs1)
    \<and> has_pending (read_state r1) = 0
    \<and> read_status r2 = STATUS_NOERROR
    \<and> read_count r2 = Some 0
    \<and> read_msgs r2 = Some (b2 # bs2)"
proof -
  define s' where "s' = snd (PassThruWriteMsgs c
             (Some (request [0x00, 0x00, 0x07, 0xE0, 0x02, 0x10, 0x03] rest m # ms)) (Some 1) t s)"
  define r1 where "r1 = PassThruReadMsgs c (Some (b1 # bs1)) (Some 1) t s'"
  define r2 where "r2 = PassThruReadMsgs c (Some (b2 # bs2)) (Some 1) t (read_state r1)"
  have "s' = (log_msg ''  -> DiagnosticSessionControl(0x%02X)\<newline>'' [ArgB 0x03]
        (log_bytes ''TX (EcuFlash->ECU)'' ([0x00, 0x00, 0x07, 0xE0, 0x02, 0x10, 0x03] @ rest) 7 s))
      \<lparr>pending_response := build_can_response [0x02, 0x50, 0x03] 3,
       pending_response_len := sizeof_PASSTHRU_MSG, has_pending := 1\<rparr>"
    unfolding s'_def by (subst write_session) simp_all
  then have pend: "has_pending s' = 1"
      "pending_response s' = build_can_response [0x02, 0x50, 0x03] 3"
    by simp_all
  have payload: "uds_payload_of (pending_response s') = [0x02, 0x50, 0x03]"
    by (simp add: pend uds_payload_of_build)
  have r1: "r1 = (STATUS_NOERROR, Some (pending_response s' # bs1), Some 1,
       (log_bytes ''RX (ECU->EcuFlash)'' (Data (pending_response s'))
          (DataSize (pending_response s')) s')\<lparr>has_pending := 0\<rparr>)"
    unfolding r1_def by (rule read_take) (simp_all add: pend)
  have r2: "r2 = (STATUS_NOERROR, Some (b2 # bs2), Some 0, read_state r1)"
    unfolding r2_def by (rule read_nothing) (simp add: r1)
  have "fst (PassThruWriteMsgs c
             (Some (request [0x00, 0x00, 0x07, 0xE0, 0x02, 0x10, 0x03] rest m # ms)) (Some 1) t s)
          = STATUS_NOERROR"
    by (rule write_status)
  moreover have "read_status r1 = STATUS_NOERROR" "read_count r1 = Some 1"
      "read_msgs r1 = Some (pending_response s' # bs1)" "has_pending (read_state r1) = 0"
    by (simp_all add: r1)
  moreover have "read_status r2 = STATUS_NOERROR" "read_count r2 = Some 0"
      "read_msgs r2 = Some (b2 # bs2)"
    by (simp_all add: r2)
  ultimately show ?thesis
    unfolding Let_def s'_def [symmetric] r1_def [symmetric] r2_def [symmetric]
    using pend(1) payload by simp
qed

subsection \<open>The mailbox has one slot and the last write wins\<close>

text \<open>
  Claim C4.  The code has no separate store and take: a response is stored by a write of
  a frame of six bytes or more, and taken by a read with a positive count.  Let two such
  writes follow each other, of messages \<open>m1\<close> and \<open>m2\<close>.  The mailbox then holds the
  response \<open>R2\<close> of \<open>m2\<close>, the very object a write of \<open>m2\<close> stores from any other state
  \<open>s0\<close>: nothing of the first response is left in it.  The next read returns \<open>R2\<close> with
  a count of one, and a read after that returns a count of zero and leaves the caller's
  buffer alone.
\<close>

theorem mailbox_last_write_wins:
  assumes "wf_msg m1" "wf_msg m2" "6 \<le> DataSize m1" "6 \<le> DataSize m2"
    and "n1 \<noteq> 0" "n2 \<noteq> 0" "n0 \<noteq> 0" "0 < k1" "0 < k2"
  shows
  "let s1 = snd (PassThruWriteMsgs c (Some (m1 # ms1)) (Some n1) t s);
       s2 = snd (PassThruWriteMsgs c (Some (m2 # ms2)) (Some n2) t s1);
       R2 = pending_response (snd (PassThruWriteMsgs c0 (Some (m2 # ms0)) (Some n0) t0 s0));
       r1 = PassThruReadMsgs c (Some (b1 # bs1)) (Some k1) t s2;
       r2 = PassThruReadMsgs c (Some (b2 # bs2)) (Some k2) t (read_state r1)
   in mailbox s2 = (R2, sizeof_PASSTHRU_MSG, 1)
    \<and> read_msgs r1 = Some (R2 # bs1)
    \<and> read_count r1 = Some 1
    \<and> mailbox (read_state r1) = (R2, sizeof_PASSTHRU_MSG, 0)
    \<and> read_msgs r2 = Some (b2 # bs2)
    \<and> read_count r2 = Some 0
    \<and> read_status r1 = STATUS_NOERROR
    \<and> read_status r2 = STATUS_NOERROR"
proof -
  define s1 where "s1 = snd (PassThruWriteMsgs c (Some (m1 # ms1)) (Some n1) t s)"
  define s2 where "s2 = snd (PassThruWriteMsgs c (Some (m2 # ms2)) (Some n2) t s1)"
  define R2 where
    "R2 = pending_response (snd (PassThruWriteMsgs c0 (Some (m2 # ms0)) (Some n0) t0 s0))"
  define r1 where "r1 = PassThruReadMsgs c (Some (b1 # bs1)) (Some k1) t s2"
  define r2 where "r2 = PassThruReadMsgs c (Some (b2 # bs2)) (Some k2) t (read_state r1)"
  have "mailbox s2 = mailbox (snd (PassThruWriteMsgs c0 (Some (m2 # ms0)) (Some n0) t0 s0))"
    unfolding s2_def using assms(4,6,7) by (rule write_mailbox_indep)
  moreover have "has_pending s2 = 1"
    unfolding s2_def using assms(4,6) by (rule write_long_has_pending)
  moreover have "pending_response_len s2 = sizeof_PASSTHRU_MSG"
    unfolding s2_def using assms(4,6) by (simp add: PassThruWriteMsgs_def Let_def)
  ultimately have mb: "mailbox s2 = (R2, sizeof_PASSTHRU_MSG, 1)"
    by (simp add: mailbox_def R2_def)
  then have s2: "pending_response s2 = R2" "pending_response_len s2 = sizeof_PASSTHRU_MSG"
      "has_pending s2 = 1"
    by (simp_all add: mailbox_def)
  have r1: "r1 = (STATUS_NOERROR, Some (R2 # bs1), Some 1,
      (log_bytes ''RX (ECU->EcuFlash)'' (Data R2) (DataSize R2) s2)\<lparr>has_pending := 0\<rparr>)"
    unfolding r1_def using read_take [of s2 k1 c b1 bs1 t] assms(8) by (simp add: s2)
  have r2: "r2 = (STATUS_NOERROR, Some (b2 # bs2), Some 0, read_state r1)"
    unfolding r2_def by (rule read_nothing) (simp add: r1)
  have "read_msgs r1 = Some (R2 # bs1)" "read_count r1 = Some 1"
      "mailbox (read_state r1) = (R2, sizeof_PASSTHRU_MSG, 0)" "read_status r1 = STATUS_NOERROR"
    by (simp_all add: r1 mailbox_def s2)
  moreover have "read_msgs r2 = Some (b2 # bs2)" "read_count r2 = Some 0"
      "read_status r2 = STATUS_NOERROR"
    by (simp_all add: r2)
  ultimately show ?thesis
    unfolding Let_def s1_def [symmetric] s2_def [symmetric] R2_def [symmetric]
      r1_def [symmetric] r2_def [symmetric]
    using mb by simp
qed

theorem mailbox_last_write_wins_witness:
  "wf_msg (zero_request [0x00, 0x00, 0x07, 0xE0, 0x02, 0x10, 0x03])
   \<and> wf_msg (zero_request [0x00, 0x00, 0x07, 0xE0, 0x02, 0x27, 0x03])
   \<and> (6::DWORD) \<le> DataSize (zero_request [0x00, 0x00, 0x07, 0xE0, 0x02, 0x10, 0x03])
   \<and> (6::DWORD) \<le> DataSize (zero_request [0x00, 0x00, 0x07, 0xE0, 0x02, 0x27, 0x03])
   \<and> (1::DWORD) \<noteq> 0 \<and> (0::DWORD) < 1
   \<and> read_msgs (PassThruReadMsgs 1 (Some [zero_msg]) (Some 1) 0
        (snd (PassThruWriteMsgs 1 (Some [zero_request [0x00, 0x00, 0x07, 0xE0, 0x02, 0x27, 0x03]])
           (Some 1) 0
           (snd (PassThruWriteMsgs 1
              (Some [zero_request [0x00, 0x00, 0x07, 0xE0, 0x02, 0x10, 0x03]]) (Some 1) 0
              init_state)))))
      = Some [build_can_response [0x04, 0x67, 0x03, 0x12, 0x34] 5]"
proof -
  let ?m1 = "zero_request [0x00, 0x00, 0x07, 0xE0, 0x02, 0x10, 0x03]"
  let ?m2 = "zero_request [0x00, 0x00, 0x07, 0xE0, 0x02, 0x27, 0x03]"
  have wf: "wf_msg ?m1" "wf_msg ?m2"
    by (simp_all add: wf_zero_request Data_cells_def)
  have len: "(6::DWORD) \<le> DataSize ?m1" "(6::DWORD) \<le> DataSize ?m2"
    by simp_all
  have n: "(1::DWORD) \<noteq> 0" "(0::DWORD) < 1"
    by simp_all
  have R2: "pending_response (snd (PassThruWriteMsgs 1 (Some [?m2]) (Some 1) 0 init_state))
      = build_can_response [0x04, 0x67, 0x03, 0x12, 0x34] 5"
    by (subst write_seed) simp_all
  from mailbox_last_write_wins [OF wf len n(1) n(1) n(1) n(2) n(2),
      where c = 1 and ?ms1.0 = "[]" and t = 0 and s = init_state and ?ms2.0 = "[]"
        and ?c0.0 = 1 and ?ms0.0 = "[]" and ?t0.0 = 0 and ?s0.0 = init_state
        and ?b1.0 = zero_msg and ?bs1.0 = "[]" and ?b2.0 = zero_msg and ?bs2.0 = "[]"]
  have "read_msgs (PassThruReadMsgs 1 (Some [zero_msg]) (Some 1) 0
        (snd (PassThruWriteMsgs 1 (Some [?m2]) (Some 1) 0
           (snd (PassThruWriteMsgs 1 (Some [?m1]) (Some 1) 0 init_state)))))
      = Some [build_can_response [0x04, 0x67, 0x03, 0x12, 0x34] 5]"
    unfolding Let_def R2 by simp
  with wf len n show ?thesis by simp
qed

subsection \<open>Short frames are dropped\<close>

text \<open>
  Claim C5.  For a first message whose \<open>DataSize\<close> is below 6, whatever the count
  argument, the write returns success and leaves the three mailbox variables as they
  were (only the trace grows).  If the mailbox was empty before, a read after the write
  returns success with a count of zero, does not touch the caller's buffer and does not
  change the state.
\<close>

theorem short_frame_dropped:
  assumes "wf_msg m" "DataSize m < 6"
  shows
  "let w = PassThruWriteMsgs c (Some (m # ms)) pNumMsgs t s;
       r = PassThruReadMsgs c (Some (b # bs)) (Some k) t (snd w)
   in fst w = STATUS_NOERROR
    \<and> mailbox (snd w) = mailbox s
    \<and> (has_pending s = 0 \<longrightarrow>
          read_status r = STATUS_NOERROR \<and> read_count r = Some 0
          \<and> read_msgs r = Some (b # bs) \<and> read_state r = snd w)"
proof -
  define s' where "s' = snd (PassThruWriteMsgs c (Some (m # ms)) pNumMsgs t s)"
  have short: "\<not> 6 \<le> DataSize m"
    using assms(2) by simp
  have mb: "mailbox s' = mailbox s"
    unfolding s'_def
    by (cases pNumMsgs) (simp_all add: PassThruWriteMsgs_def Let_def mailbox_def short)
  have "PassThruReadMsgs c (Some (b # bs)) (Some k) t s' = (STATUS_NOERROR, Some (b # bs), Some 0, s')"
    if "has_pending s = 0"
    by (rule read_nothing) (use mb that in \<open>simp add: mailbox_def\<close>)
  then show ?thesis
    unfolding Let_def s'_def [symmetric] using mb by (simp add: write_status)
qed

theorem short_frame_dropped_witness:
  "wf_msg (zero_request [0x00, 0x00, 0x07, 0xE0, 0x01])
   \<and> DataSize (zero_request [0x00, 0x00, 0x07, 0xE0, 0x01]) < 6
   \<and> has_pending init_state = 0
   \<and> mailbox (snd (PassThruWriteMsgs 1 (Some [zero_request [0x00, 0x00, 0x07, 0xE0, 0x01]])
         (Some 1) 0 init_state)) = mailbox init_state
   \<and> read_count (PassThruReadMsgs 1 (Some [zero_msg]) (Some 1) 0
        (snd (PassThruWriteMsgs 1 (Some [zero_request [0x00, 0x00, 0x07, 0xE0, 0x01]])
           (Some 1) 0 init_state))) = Some 0"
proof -
  let ?m = "zero_request [0x00, 0x00, 0x07, 0xE0, 0x01]"
  have wf: "wf_msg ?m"
    by (simp add: wf_zero_request Data_cells_def)
  have len: "DataSize ?m < 6"
    by simp
  have e: "has_pending init_state = 0"
    by (simp add: init_state_def)
  from short_frame_dropped [OF wf len, where c = 1 and ms = "[]" and pNumMsgs = "Some 1"
      and t = 0 and s = init_state and b = zero_msg and bs = "[]" and k = 1] e
  have "mailbox (snd (PassThruWriteMsgs 1 (Some [?m]) (Some 1) 0 init_state)) = mailbox init_state
    \<and> read_count (PassThruReadMsgs 1 (Some [zero_msg]) (Some 1) 0
        (snd (PassThruWriteMsgs 1 (Some [?m]) (Some 1) 0 init_state))) = Some 0"
    unfolding Let_def by simp
  with wf len e show ?thesis by simp
qed

subsection \<open>The seed is constant\<close>

text \<open>
  Claim C7.  A write whose first message has at least six bytes, service byte 0x27 and
  subfunction byte 0x03 leaves the mailbox full with the response of payload
  \<open>04 67 03 12 34\<close>, from any state and whatever the rest of the message: the mailbox
  after the write is one fixed value.
\<close>

theorem request_seed_constant:
  assumes "wf_msg m" "6 \<le> DataSize m" "n \<noteq> 0" "Data m ! 5 = 0x27" "Data m ! 6 = 0x03"
  shows
  "let s' = snd (PassThruWriteMsgs c (Some (m # ms)) (Some n) t s)
   in has_pending s' = 1
    \<and> uds_payload_of (pending_response s') = [0x04, 0x67, 0x03, 0x12, 0x34]
    \<and> mailbox s' = (build_can_response [0x04, 0x67, 0x03, 0x12, 0x34] 5, sizeof_PASSTHRU_MSG, 1)"
proof -
  define s' where "s' = snd (PassThruWriteMsgs c (Some (m # ms)) (Some n) t s)"
  have mb: "mailbox s' = (build_can_response [0x04, 0x67, 0x03, 0x12, 0x34] 5, sizeof_PASSTHRU_MSG, 1)"
    unfolding s'_def by (subst write_seed [OF assms(2-5)]) (simp add: mailbox_def)
  then have "has_pending s' = 1"
      "pending_response s' = build_can_response [0x04, 0x67, 0x03, 0x12, 0x34] 5"
    by (simp_all add: mailbox_def)
  moreover have "uds_payload_of (build_can_response [0x04, 0x67, 0x03, 0x12, 0x34] 5)
      = [0x04, 0x67, 0x03, 0x12, 0x34]"
    by (simp add: uds_payload_of_build)
  ultimately show ?thesis
    unfolding Let_def s'_def [symmetric] using mb by simp
qed

theorem request_seed_constant_witness:
  "wf_msg (zero_request [0x00, 0x00, 0x07, 0xE0, 0x02, 0x27, 0x03])
   \<and> 6 \<le> DataSize (zero_request [0x00, 0x00, 0x07, 0xE0, 0x02, 0x27, 0x03])
   \<and> (1::DWORD) \<noteq> 0
   \<and> Data (zero_request [0x00, 0x00, 0x07, 0xE0, 0x02, 0x27, 0x03]) ! 5 = 0x27
   \<and> Data (zero_request [0x00, 0x00, 0x07, 0xE0, 0x02, 0x27, 0x03]) ! 6 = 0x03
   \<and> uds_payload_of (pending_response (snd (PassThruWriteMsgs 1
         (Some [zero_request [0x00, 0x00, 0x07, 0xE0, 0x02, 0x27, 0x03]]) (Some 1) 0 init_state)))
      = [0x04, 0x67, 0x03, 0x12, 0x34]"
proof -
  let ?m = "zero_request [0x00, 0x00, 0x07, 0xE0, 0x02, 0x27, 0x03]"
  have wf: "wf_msg ?m"
    by (simp add: wf_zero_request Data_cells_def)
  have h: "6 \<le> DataSize ?m" "(1::DWORD) \<noteq> 0" "Data ?m ! 5 = 0x27" "Data ?m ! 6 = 0x03"
    by simp_all
  from request_seed_constant [OF wf h, where c = 1 and ms = "[]" and t = 0 and s = init_state]
  have "uds_payload_of (pending_response (snd (PassThruWriteMsgs 1 (Some [?m]) (Some 1) 0 init_state)))
      = [0x04, 0x67, 0x03, 0x12, 0x34]"
    unfolding Let_def by simp
  with wf h show ?thesis by simp
qed

subsection \<open>A read with a count of zero\<close>

text \<open>
  Claim C10.  While a response is pending, a read whose count is zero returns success,
  sets the count to zero, leaves the caller's buffer alone and does not change the state
  at all, so the mailbox stays full; a later read with a positive count returns that
  response with a count of one and empties the mailbox.
\<close>

theorem read_zero_count_keeps_response:
  assumes "has_pending s \<noteq> 0" "0 < k"
  shows
  "let r0 = PassThruReadMsgs c (Some (b # bs)) (Some 0) t s;
       r1 = PassThruReadMsgs c (Some (b' # bs')) (Some k) t (read_state r0)
   in read_status r0 = STATUS_NOERROR
    \<and> read_count r0 = Some 0
    \<and> read_msgs r0 = Some (b # bs)
    \<and> read_state r0 = s
    \<and> read_status r1 = STATUS_NOERROR
    \<and> read_count r1 = Some 1
    \<and> read_msgs r1 = Some (pending_response s # bs')
    \<and> has_pending (read_state r1) = 0"
proof -
  have r0: "PassThruReadMsgs c (Some (b # bs)) (Some 0) t s = (STATUS_NOERROR, Some (b # bs), Some 0, s)"
    by (rule read_nothing) simp
  show ?thesis
    unfolding Let_def r0 by (simp add: read_take [OF assms])
qed

theorem read_zero_count_keeps_response_witness:
  "has_pending (snd (PassThruWriteMsgs 1
       (Some [zero_request [0x00, 0x00, 0x07, 0xE0, 0x02, 0x10, 0x03]]) (Some 1) 0 init_state)) \<noteq> 0
   \<and> (0::DWORD) < 1
   \<and> read_count (PassThruReadMsgs 1 (Some [zero_msg]) (Some 0) 0
        (snd (PassThruWriteMsgs 1
           (Some [zero_request [0x00, 0x00, 0x07, 0xE0, 0x02, 0x10, 0x03]]) (Some 1) 0 init_state)))
      = Some 0
   \<and> read_msgs (PassThruReadMsgs 1 (Some [zero_msg]) (Some 1) 0
        (read_state (PassThruReadMsgs 1 (Some [zero_msg]) (Some 0) 0
           (snd (PassThruWriteMsgs 1
              (Some [zero_request [0x00, 0x00, 0x07, 0xE0, 0x02, 0x10, 0x03]]) (Some 1) 0
              init_state)))))
      = Some [build_can_response [0x02, 0x50, 0x03] 3]"
proof -
  let ?s = "snd (PassThruWriteMsgs 1
       (Some [zero_request [0x00, 0x00, 0x07, 0xE0, 0x02, 0x10, 0x03]]) (Some 1) 0 init_state)"
  have s: "has_pending ?s = 1" "pending_response ?s = build_can_response [0x02, 0x50, 0x03] 3"
    by (subst write_session; simp)+
  then have h: "has_pending ?s \<noteq> 0" "(0::DWORD) < 1"
    by simp_all
  note T = read_zero_count_keeps_response [OF h, where c = 1 and b = zero_msg and bs = "[]"
      and t = 0 and b' = zero_msg and bs' = "[]", unfolded Let_def]
  have a: "read_count (PassThruReadMsgs 1 (Some [zero_msg]) (Some 0) 0 ?s) = Some 0"
    using T by blast
  have b: "read_msgs (PassThruReadMsgs 1 (Some [zero_msg]) (Some 1) 0
        (read_state (PassThruReadMsgs 1 (Some [zero_msg]) (Some 0) 0 ?s)))
      = Some [pending_response ?s]"
    using T by blast
  show ?thesis
    using h a b [unfolded s(2)] by blast
qed

subsection \<open>Every frame of six bytes or more gets one positive response\<close>

text \<open>
  Claim C8.  After a write whose first message has at least six bytes the mailbox is
  full, and the object in it is the frame built from one payload \<open>p\<close>.  The payload is
  positive in every rule: its first byte is the number of bytes that follow and its
  second byte is the request's service byte plus 0x40 (modulo 256, the \<open>BYTE\<close> cast of
  the source).  It is never a negative response \<open>03 7F service code\<close>; the byte 0x7F can
  stand second only for the service byte 0x3F, where it is 0x3F + 0x40.  A request that
  no dedicated rule matches is answered with \<open>02, service + 0x40, subfunction\<close>, so
  service 0x99 with subfunction 0x01 yields \<open>02 D9 01\<close>.
\<close>

theorem every_frame_gets_positive_response:
  assumes "wf_msg m" "6 \<le> DataSize m" "n \<noteq> 0"
  shows
  "let s' = snd (PassThruWriteMsgs c (Some (m # ms)) (Some n) t s);
       svc = Data m ! 5;
       sf = Data m ! 6;
       p = uds_payload_of (pending_response s')
   in has_pending s' = 1
    \<and> pending_response s' = build_can_response p (of_nat (length p))
    \<and> p ! 0 = of_nat (length p - 1)
    \<and> p ! 1 = svc + 0x40
    \<and> (\<forall>nrc. p \<noteq> [0x03, 0x7F, svc, nrc])
    \<and> (svc \<noteq> 0x3F \<longrightarrow> p ! 1 \<noteq> 0x7F)
    \<and> (svc \<noteq> 0x10 \<and> svc \<noteq> 0x34 \<and> \<not> (svc = 0x27 \<and> sf = 0x03)
         \<and> \<not> (svc = 0x27 \<and> sf = 0x04 \<and> 8 \<le> DataSize m)
        \<longrightarrow> p = [0x02, svc + 0x40, sf])
    \<and> (svc = 0x99 \<and> sf = 0x01 \<longrightarrow> p = [0x02, 0xD9, 0x01])"
proof -
  define s' where "s' = snd (PassThruWriteMsgs c (Some (m # ms)) (Some n) t s)"
  define svc where "svc = Data m ! 5"
  define sf where "sf = Data m ! 6"
  define p where "p = uds_payload_of (pending_response s')"
  note len = assms(2,3)
  have full: "has_pending s' = 1"
    unfolding s'_def using len by (rule write_long_has_pending)
  consider
      (session) "svc = 0x10"
    | (seed) "svc = 0x27" "sf = 0x03"
    | (key) "svc = 0x27" "sf = 0x04" "8 \<le> DataSize m"
    | (download) "svc = 0x34"
    | (generic) "svc \<noteq> 0x10" "svc \<noteq> 0x34" "\<not> (svc = 0x27 \<and> sf = 0x03)"
        "\<not> (svc = 0x27 \<and> sf = 0x04 \<and> 8 \<le> DataSize m)"
    by blast
  then have "pending_response s' = build_can_response p (of_nat (length p))
    \<and> p ! 0 = of_nat (length p - 1)
    \<and> p ! 1 = svc + 0x40
    \<and> (\<forall>nrc. p \<noteq> [0x03, 0x7F, svc, nrc])
    \<and> (svc \<noteq> 0x10 \<and> svc \<noteq> 0x34 \<and> \<not> (svc = 0x27 \<and> sf = 0x03)
         \<and> \<not> (svc = 0x27 \<and> sf = 0x04 \<and> 8 \<le> DataSize m)
        \<longrightarrow> p = [0x02, svc + 0x40, sf])
    \<and> (svc = 0x99 \<and> sf = 0x01 \<longrightarrow> p = [0x02, 0xD9, 0x01])"
  proof cases
    case session
    have "pending_response s' = build_can_response [0x02, 0x50, sf] 3"
      unfolding s'_def sf_def
      by (subst write_session [OF len]) (use session in \<open>simp_all add: svc_def\<close>)
    moreover from this have "p = [0x02, 0x50, sf]"
      by (simp add: p_def)
    ultimately show ?thesis
      using session by simp
  next
    case seed
    have "pending_response s' = build_can_response [0x04, 0x67, 0x03, 0x12, 0x34] 5"
      unfolding s'_def
      by (subst write_seed [OF len]) (use seed in \<open>simp_all add: svc_def sf_def\<close>)
    moreover from this have "p = [0x04, 0x67, 0x03, 0x12, 0x34]"
      by (simp add: p_def)
    ultimately show ?thesis
      using seed by simp
  next
    case key
    have "pending_response s' = build_can_response [0x02, 0x67, 0x04] 3"
      unfolding s'_def
      by (subst write_sendkey [OF len]) (use key in \<open>simp_all add: svc_def sf_def\<close>)
    moreover from this have "p = [0x02, 0x67, 0x04]"
      by (simp add: p_def)
    ultimately show ?thesis
      using key by simp
  next
    case download
    have "pending_response s' = build_can_response [0x03, 0x74, 0x20, 0x0F] 4"
      unfolding s'_def
      by (subst write_download [OF len]) (use download in \<open>simp_all add: svc_def\<close>)
    moreover from this have "p = [0x03, 0x74, 0x20, 0x0F]"
      by (simp add: p_def)
    ultimately show ?thesis
      using download by simp
  next
    case generic
    have "pending_response s' = build_can_response [0x02, svc + 0x40, sf] 3"
      unfolding s'_def svc_def sf_def
      by (subst write_generic [OF len]) (use generic in \<open>simp_all add: svc_def sf_def\<close>)
    moreover from this have "p = [0x02, svc + 0x40, sf]"
      by (simp add: p_def)
    ultimately show ?thesis
      by auto
  qed
  moreover from this have "svc \<noteq> 0x3F \<longrightarrow> p ! 1 \<noteq> 0x7F"
    using positive_sid_not_7F [of svc] by simp
  ultimately show ?thesis
    unfolding Let_def s'_def [symmetric] svc_def [symmetric] sf_def [symmetric] p_def [symmetric]
    using full by blast
qed

theorem every_frame_gets_positive_response_witness:
  "wf_msg (zero_request [0x00, 0x00, 0x07, 0xE0, 0x02, 0x99, 0x01])
   \<and> 6 \<le> DataSize (zero_request [0x00, 0x00, 0x07, 0xE0, 0x02, 0x99, 0x01])
   \<and> (1::DWORD) \<noteq> 0
   \<and> has_pending (snd (PassThruWriteMsgs 1
        (Some [zero_request [0x00, 0x00, 0x07, 0xE0, 0x02, 0x99, 0x01]]) (Some 1) 0 init_state)) = 1
   \<and> uds_payload_of (pending_response (snd (PassThruWriteMsgs 1
        (Some [zero_request [0x00, 0x00, 0x07, 0xE0, 0x02, 0x99, 0x01]]) (Some 1) 0 init_state)))
      = [0x02, 0xD9, 0x01]"
proof -
  let ?m = "zero_request [0x00, 0x00, 0x07, 0xE0, 0x02, 0x99, 0x01]"
  have wf: "wf_msg ?m"
    by (simp add: wf_zero_request Data_cells_def)
  have h: "6 \<le> DataSize ?m" "(1::DWORD) \<noteq> 0"
    by simp_all
  have d: "Data ?m ! 5 = 0x99" "Data ?m ! 6 = 0x01"
    by simp_all
  note T = every_frame_gets_positive_response [OF wf h, where c = 1 and ms = "[]" and t = 0
      and s = init_state, unfolded Let_def]
  have a: "has_pending (snd (PassThruWriteMsgs 1 (Some [?m]) (Some 1) 0 init_state)) = 1"
    using T by blast
  have b: "uds_payload_of (pending_response (snd (PassThruWriteMsgs 1 (Some [?m]) (Some 1) 0
      init_state))) = [0x02, 0xD9, 0x01]"
    using T d by blast
  show ?thesis
    using wf h a b by blast
qed

subsection \<open>A sendKey request without key bytes\<close>

text \<open>
  Claim C9.  A seven-byte frame with service byte 0x27 and subfunction byte 0x04 is
  answered by the last, generic branch: the only line it adds to the trace after the
  dump of the request is the "Unknown UDS service" line, so no key is reported.  The
  payload stored is \<open>02 67 04\<close>, and the mailbox after the write is the same, field by
  field, as after any request \<open>m'\<close> that the sendKey branch answers.
\<close>

theorem bare_send_key_falls_through:
  assumes "wf_msg m" "DataSize m = 7" "n \<noteq> 0" "Data m ! 5 = 0x27" "Data m ! 6 = 0x04"
    and "wf_msg m'" "8 \<le> DataSize m'" "n' \<noteq> 0" "Data m' ! 5 = 0x27" "Data m' ! 6 = 0x04"
  shows
  "let s1 = snd (PassThruWriteMsgs c (Some (m # ms)) (Some n) t s);
       s2 = snd (PassThruWriteMsgs c' (Some (m' # ms')) (Some n') t' s')
   in stderr_log s1 = stderr_log (log_bytes ''TX (EcuFlash->ECU)'' (Data m) (DataSize m) s) @
        [(''  -> Unknown UDS service 0x%02X, sending generic positive\<newline>'', [ArgB 0x27])]
    \<and> uds_payload_of (pending_response s1) = [0x02, 0x67, 0x04]
    \<and> mailbox s1 = (build_can_response [0x02, 0x67, 0x04] 3, sizeof_PASSTHRU_MSG, 1)
    \<and> mailbox s1 = mailbox s2"
proof -
  define s1 where "s1 = snd (PassThruWriteMsgs c (Some (m # ms)) (Some n) t s)"
  define s2 where "s2 = snd (PassThruWriteMsgs c' (Some (m' # ms')) (Some n') t' s')"
  have len: "6 \<le> DataSize m" "\<not> 8 \<le> DataSize m"
    by (simp_all add: assms(2))
  have s1: "s1 = (log_msg ''  -> Unknown UDS service 0x%02X, sending generic positive\<newline>''
          [ArgB 0x27] (log_bytes ''TX (EcuFlash->ECU)'' (Data m) (DataSize m) s))
      \<lparr>pending_response := build_can_response [0x02, 0x67, 0x04] 3,
       pending_response_len := sizeof_PASSTHRU_MSG, has_pending := 1\<rparr>"
    unfolding s1_def
    by (subst write_generic [OF len(1) assms(3)]) (simp_all add: assms(4,5) len(2))
  have s2: "mailbox s2 = (build_can_response [0x02, 0x67, 0x04] 3, sizeof_PASSTHRU_MSG, 1)"
    unfolding s2_def
    by (subst write_sendkey [OF le_6_if_le_8 [OF assms(7)] assms(8,9,10,7)])
      (simp add: mailbox_def)
  have "stderr_log s1 = stderr_log (log_bytes ''TX (EcuFlash->ECU)'' (Data m) (DataSize m) s) @
        [(''  -> Unknown UDS service 0x%02X, sending generic positive\<newline>'', [ArgB 0x27])]"
    by (simp add: s1)
  moreover have "mailbox s1 = (build_can_response [0x02, 0x67, 0x04] 3, sizeof_PASSTHRU_MSG, 1)"
    by (simp add: s1 mailbox_def)
  moreover have "uds_payload_of (pending_response s1) = [0x02, 0x67, 0x04]"
    by (simp add: s1)
  ultimately show ?thesis
    unfolding Let_def s1_def [symmetric] s2_def [symmetric] using s2 by simp
qed

theorem bare_send_key_falls_through_witness:
  "wf_msg (zero_request [0x00, 0x00, 0x07, 0xE0, 0x02, 0x27, 0x04])
   \<and> DataSize (zero_request [0x00, 0x00, 0x07, 0xE0, 0x02, 0x27, 0x04]) = 7
   \<and> (1::DWORD) \<noteq> 0
   \<and> Data (zero_request [0x00, 0x00, 0x07, 0xE0, 0x02, 0x27, 0x04]) ! 5 = 0x27
   \<and> Data (zero_request [0x00, 0x00, 0x07, 0xE0, 0x02, 0x27, 0x04]) ! 6 = 0x04
   \<and> wf_msg (zero_request [0x00, 0x00, 0x07, 0xE0, 0x04, 0x27, 0x04, 0xAA, 0xBB])
   \<and> 8 \<le> DataSize (zero_request [0x00, 0x00, 0x07, 0xE0, 0x04, 0x27, 0x04, 0xAA, 0xBB])
   \<and> Data (zero_request [0x00, 0x00, 0x07, 0xE0, 0x04, 0x27, 0x04, 0xAA, 0xBB]) ! 5 = 0x27
   \<and> Data (zero_request [0x00, 0x00, 0x07, 0xE0, 0x04, 0x27, 0x04, 0xAA, 0xBB]) ! 6 = 0x04
   \<and> mailbox (snd (PassThruWriteMsgs 1
        (Some [zero_request [0x00, 0x00, 0x07, 0xE0, 0x02, 0x27, 0x04]]) (Some 1) 0 init_state))
     = mailbox (snd (PassThruWriteMsgs 1
        (Some [zero_request [0x00, 0x00, 0x07, 0xE0, 0x04, 0x27, 0x04, 0xAA, 0xBB]]) (Some 1) 0
        init_state))"
proof -
  let ?m = "zero_request [0x00, 0x00, 0x07, 0xE0, 0x02, 0x27, 0x04]"
  let ?m' = "zero_request [0x00, 0x00, 0x07, 0xE0, 0x04, 0x27, 0x04, 0xAA, 0xBB]"
  have wf: "wf_msg ?m" "wf_msg ?m'"
    by (simp_all add: wf_zero_request Data_cells_def)
  have h: "DataSize ?m = 7" "(1::DWORD) \<noteq> 0" "Data ?m ! 5 = 0x27" "Data ?m ! 6 = 0x04"
    by simp_all
  have h': "8 \<le> DataSize ?m'" "Data ?m' ! 5 = 0x27" "Data ?m' ! 6 = 0x04"
    by simp_all
  note T = bare_send_key_falls_through [OF wf(1) h wf(2) h'(1) h(2) h'(2,3),
      where c = 1 and ms = "[]" and t = 0 and s = init_state
        and c' = 1 and ms' = "[]" and t' = 0 and s' = init_state, unfolded Let_def]
  have "mailbox (snd (PassThruWriteMsgs 1 (Some [?m]) (Some 1) 0 init_state))
     = mailbox (snd (PassThruWriteMsgs 1 (Some [?m']) (Some 1) 0 init_state))"
    using T by blast
  then show ?thesis
    using wf h h' by blast
qed

subsection \<open>The key observation\<close>

text \<open>
  Claim C2.  When the sendKey branch is taken (service 0x27, subfunction 0x04,
  \<open>DataSize\<close> at least 8), with \<open>KH = Data[7]\<close> and \<open>KL = Data[8]\<close>, the lines added to the
  trace report the key \<open>KH * 256 + KL\<close> (a 16-bit value, so 0xAABB for AA BB), the
  candidate \<open>(0x1234 * 0x4081 + 0x1234) mod 65536 = 0x3E68\<close>, and the verdict "MATCHES"
  exactly when the two are equal.  The response does not depend on the key: the payload
  is \<open>02 67 04\<close> and the mailbox after the write is one fixed value.
\<close>

theorem send_key_observation:
  assumes "wf_msg m" "8 \<le> DataSize m" "n \<noteq> 0" "Data m ! 5 = 0x27" "Data m ! 6 = 0x04"
  shows
  "let s' = snd (PassThruWriteMsgs c (Some (m # ms)) (Some n) t s);
       KH = Data m ! 7;
       KL = Data m ! 8;
       observed_key = unat KH * 256 + unat KL;
       candidate_key = (0x1234 * 0x4081 + 0x1234) mod 65536;
       matches = (observed_key = candidate_key)
   in stderr_log s' = stderr_log (log_bytes ''TX (EcuFlash->ECU)'' (Data m) (DataSize m) s) @
        [(''  -> SecurityAccess sendKey (write-level, subfunction 0x04)\<newline>'', []),
         (''  *** WRITE SESSION KEY for seed=0x1234: KH=0x%02X KL=0x%02X (key=0x%04X) ***\<newline>'',
          [ArgB KH, ArgB KL, ArgW (of_nat observed_key)]),
         (''  *** key16 = 0x%04X ***\<newline>'', [ArgW (of_nat observed_key)]),
         (''  (Read-session formula gives: 0x%04lX - %s)\<newline>'',
          [ArgD (of_nat candidate_key),
           ArgS (if matches then ''MATCHES read-session!'' else ''DIFFERENT from read-session'')])]
    \<and> observed_key < 65536
    \<and> candidate_key = 0x3E68
    \<and> (KH = 0xAA \<and> KL = 0xBB \<longrightarrow> observed_key = 0xAABB)
    \<and> uds_payload_of (pending_response s') = [0x02, 0x67, 0x04]
    \<and> mailbox s' = (build_can_response [0x02, 0x67, 0x04] 3, sizeof_PASSTHRU_MSG, 1)"
proof -
  define s' where "s' = snd (PassThruWriteMsgs c (Some (m # ms)) (Some n) t s)"
  define KH where "KH = Data m ! 7"
  define KL where "KL = Data m ! 8"
  define observed_key where "observed_key = unat KH * 256 + unat KL"
  define candidate_key :: nat where "candidate_key = (0x1234 * 0x4081 + 0x1234) mod 65536"
  have cand: "candidate_key = 0x3E68"
    by (simp add: candidate_key_def)
  have s': "s' = (log_msg ''  (Read-session formula gives: 0x%04lX - %s)\<newline>''
         [ArgD 0x3E68,
          ArgS (if observed_key = 0x3E68
                then ''MATCHES read-session!'' else ''DIFFERENT from read-session'')]
        (log_msg ''  *** key16 = 0x%04X ***\<newline>'' [ArgW (of_nat observed_key)]
          (log_msg ''  *** WRITE SESSION KEY for seed=0x1234: KH=0x%02X KL=0x%02X (key=0x%04X) ***\<newline>''
             [ArgB KH, ArgB KL, ArgW (of_nat observed_key)]
            (log_msg ''  -> SecurityAccess sendKey (write-level, subfunction 0x04)\<newline>'' []
              (log_bytes ''TX (EcuFlash->ECU)'' (Data m) (DataSize m) s)))))
      \<lparr>pending_response := build_can_response [0x02, 0x67, 0x04] 3,
       pending_response_len := sizeof_PASSTHRU_MSG, has_pending := 1\<rparr>"
    unfolding s'_def write_sendkey [OF le_6_if_le_8 [OF assms(2)] assms(3,4,5,2)]
    unfolding read_key_value
    unfolding key_matches_iff
    unfolding key_eq_of_nat
    unfolding KH_def KL_def observed_key_def ..
  have "stderr_log s' = stderr_log (log_bytes ''TX (EcuFlash->ECU)'' (Data m) (DataSize m) s) @
        [(''  -> SecurityAccess sendKey (write-level, subfunction 0x04)\<newline>'', []),
         (''  *** WRITE SESSION KEY for seed=0x1234: KH=0x%02X KL=0x%02X (key=0x%04X) ***\<newline>'',
          [ArgB KH, ArgB KL, ArgW (of_nat observed_key)]),
         (''  *** key16 = 0x%04X ***\<newline>'', [ArgW (of_nat observed_key)]),
         (''  (Read-session formula gives: 0x%04lX - %s)\<newline>'',
          [ArgD (of_nat candidate_key),
           ArgS (if observed_key = candidate_key then ''MATCHES read-session!''
                 else ''DIFFERENT from read-session'')])]"
    unfolding cand by (simp add: s')
  moreover have "observed_key < 65536"
    unfolding observed_key_def by (rule key_less)
  moreover have "KH = 0xAA \<and> KL = 0xBB \<longrightarrow> observed_key = 0xAABB"
    by (simp add: observed_key_def)
  moreover have "uds_payload_of (pending_response s') = [0x02, 0x67, 0x04]"
    by (simp add: s')
  moreover have "mailbox s' = (build_can_response [0x02, 0x67, 0x04] 3, sizeof_PASSTHRU_MSG, 1)"
    by (simp add: s' mailbox_def)
  ultimately show ?thesis
    unfolding Let_def s'_def [symmetric] KH_def [symmetric] KL_def [symmetric]
      observed_key_def [symmetric] candidate_key_def [symmetric]
    using cand by blast
qed


theorem send_key_observation_witness:
  "wf_msg (zero_request [0x00, 0x00, 0x07, 0xE0, 0x04, 0x27, 0x04, 0xAA, 0xBB])
   \<and> 8 \<le> DataSize (zero_request [0x00, 0x00, 0x07, 0xE0, 0x04, 0x27, 0x04, 0xAA, 0xBB])
   \<and> (1::DWORD) \<noteq> 0
   \<and> Data (zero_request [0x00, 0x00, 0x07, 0xE0, 0x04, 0x27, 0x04, 0xAA, 0xBB]) ! 5 = 0x27
   \<and> Data (zero_request [0x00, 0x00, 0x07, 0xE0, 0x04, 0x27, 0x04, 0xAA, 0xBB]) ! 6 = 0x04
   \<and> Data (zero_request [0x00, 0x00, 0x07, 0xE0, 0x04, 0x27, 0x04, 0xAA, 0xBB]) ! 7 = 0xAA
   \<and> Data (zero_request [0x00, 0x00, 0x07, 0xE0, 0x04, 0x27, 0x04, 0xAA, 0xBB]) ! 8 = 0xBB
   \<and> last (stderr_log (snd (PassThruWriteMsgs 1
        (Some [zero_request [0x00, 0x00, 0x07, 0xE0, 0x04, 0x27, 0x04, 0xAA, 0xBB]]) (Some 1) 0
        init_state)))
      = (''  (Read-session formula gives: 0x%04lX - %s)\<newline>'',
         [ArgD 0x3E68, ArgS ''DIFFERENT from read-session''])
   \<and> uds_payload_of (pending_response (snd (PassThruWriteMsgs 1
        (Some [zero_request [0x00, 0x00, 0x07, 0xE0, 0x04, 0x27, 0x04, 0xAA, 0xBB]]) (Some 1) 0
        init_state)))
      = [0x02, 0x67, 0x04]"
proof -
  let ?m = "zero_request [0x00, 0x00, 0x07, 0xE0, 0x04, 0x27, 0x04, 0xAA, 0xBB]"
  have wf: "wf_msg ?m"
    by (simp add: wf_zero_request Data_cells_def)
  have h: "8 \<le> DataSize ?m" "(1::DWORD) \<noteq> 0" "Data ?m ! 5 = 0x27" "Data ?m ! 6 = 0x04"
    by simp_all
  have k: "Data ?m ! 7 = 0xAA" "Data ?m ! 8 = 0xBB"
    by simp_all
  note T = send_key_observation [OF wf h, where c = 1 and ms = "[]" and t = 0
      and s = init_state, unfolded Let_def k]
  have a: "last (stderr_log (snd (PassThruWriteMsgs 1 (Some [?m]) (Some 1) 0 init_state)))
      = (''  (Read-session formula gives: 0x%04lX - %s)\<newline>'',
         [ArgD 0x3E68, ArgS ''DIFFERENT from read-session''])"
    using T by simp
  have b: "uds_payload_of (pending_response (snd (PassThruWriteMsgs 1 (Some [?m]) (Some 1) 0
      init_state))) = [0x02, 0x67, 0x04]"
    using T by blast
  show ?thesis
    using wf h k a b by blast
qed

subsection \<open>The length test of the sendKey branch\<close>

text \<open>
  Claim C1 says that the sendKey branch is taken exactly when two key bytes follow the
  subfunction, that is for frames of nine bytes or more, and that shorter ones go to the
  generic branch.  The source tests \<open>len >= 8\<close> and then reads \<open>data[7]\<close> and \<open>data[8]\<close>.
  At the eight-byte frame \<open>00 00 07 E0 03 27 04 AA\<close>, in a buffer whose next cell holds
  0xBB, the sendKey branch runs: the trace reports KH = 0xAA and KL = 0xBB, a byte that
  is not part of the frame, and the key 0xAABB.
\<close>

theorem send_key_rule_taken_at_eight_bytes:
  "let m = request [0x00, 0x00, 0x07, 0xE0, 0x03, 0x27, 0x04, 0xAA] (0xBB # replicate 4119 0)
             zero_msg;
       s' = snd (PassThruWriteMsgs 1 (Some [m]) (Some 1) 0 init_state)
   in wf_msg m
    \<and> DataSize m = 8
    \<and> stderr_log s' = stderr_log (log_bytes ''TX (EcuFlash->ECU)'' (Data m) (DataSize m) init_state) @
        [(''  -> SecurityAccess sendKey (write-level, subfunction 0x04)\<newline>'', []),
         (''  *** WRITE SESSION KEY for seed=0x1234: KH=0x%02X KL=0x%02X (key=0x%04X) ***\<newline>'',
          [ArgB 0xAA, ArgB 0xBB, ArgW 0xAABB]),
         (''  *** key16 = 0x%04X ***\<newline>'', [ArgW 0xAABB]),
         (''  (Read-session formula gives: 0x%04lX - %s)\<newline>'',
          [ArgD 0x3E68, ArgS ''DIFFERENT from read-session''])]
    \<and> uds_payload_of (pending_response s') = [0x02, 0x67, 0x04]"
proof -
  define m where "m = request [0x00, 0x00, 0x07, 0xE0, 0x03, 0x27, 0x04, 0xAA]
    (0xBB # replicate 4119 0) zero_msg"
  have m: "6 \<le> DataSize m" "(1::DWORD) \<noteq> 0" "Data m ! 5 = 0x27" "Data m ! 6 = 0x04"
      "8 \<le> DataSize m"
    by (simp_all add: m_def)
  have k: "Data m ! 7 = 0xAA" "Data m ! 8 = 0xBB"
    by (simp_all add: m_def)
  have "wf_msg m" "DataSize m = 8"
    by (simp_all add: m_def wf_msg_def Data_cells_def)
  then show ?thesis
    unfolding Let_def m_def [symmetric] write_sendkey [OF m]
    unfolding read_key_value
    unfolding key_matches_iff
    unfolding key_eq_of_nat
    unfolding k
    by simp
qed

subsection \<open>The subfunction byte of a six-byte frame\<close>

text \<open>
  Claim C6 says that byte 6 is taken as the subfunction only for frames of seven bytes or
  more, so that two six-byte frames with the same bytes 0 to 5 get the same response.
  The source reads \<open>data[6]\<close> under the test \<open>len >= 6\<close> alone.  Two messages with
  \<open>DataSize = 6\<close> and the same six bytes \<open>00 00 07 E0 01 10\<close>, whose buffers differ in
  cell 6 only (0x03 and 0x00), get the payloads \<open>02 50 03\<close> and \<open>02 50 00\<close>.
\<close>

theorem six_byte_frames_differ_on_byte_six:
  "let m1 = request [0x00, 0x00, 0x07, 0xE0, 0x01, 0x10] (0x03 # replicate 4121 0) zero_msg;
       m2 = request [0x00, 0x00, 0x07, 0xE0, 0x01, 0x10] (0x00 # replicate 4121 0) zero_msg;
       p1 = uds_payload_of (pending_response
              (snd (PassThruWriteMsgs 1 (Some [m1]) (Some 1) 0 init_state)));
       p2 = uds_payload_of (pending_response
              (snd (PassThruWriteMsgs 1 (Some [m2]) (Some 1) 0 init_state)))
   in wf_msg m1 \<and> wf_msg m2
    \<and> DataSize m1 = 6 \<and> DataSize m2 = 6
    \<and> take 6 (Data m1) = take 6 (Data m2)
    \<and> p1 = [0x02, 0x50, 0x03]
    \<and> p2 = [0x02, 0x50, 0x00]
    \<and> p1 \<noteq> p2"
proof -
  define m1 where "m1 = request [0x00, 0x00, 0x07, 0xE0, 0x01, 0x10] (0x03 # replicate 4121 0) zero_msg"
  define m2 where "m2 = request [0x00, 0x00, 0x07, 0xE0, 0x01, 0x10] (0x00 # replicate 4121 0) zero_msg"
  have m1: "6 \<le> DataSize m1" "(1::DWORD) \<noteq> 0" "Data m1 ! 5 = 0x10"
    by (simp_all add: m1_def)
  have m2: "6 \<le> DataSize m2" "(1::DWORD) \<noteq> 0" "Data m2 ! 5 = 0x10"
    by (simp_all add: m2_def)
  have b: "Data m1 ! 6 = 0x03" "Data m2 ! 6 = 0x00"
    by (simp_all add: m1_def m2_def)
  have "wf_msg m1" "wf_msg m2" "DataSize m1 = 6" "DataSize m2 = 6"
      "take 6 (Data m1) = take 6 (Data m2)"
    by (simp_all add: m1_def m2_def wf_msg_def Data_cells_def)
  then show ?thesis
    unfolding Let_def m1_def [symmetric] m2_def [symmetric]
      write_session [OF m1] write_session [OF m2] b
    by simp
qed

end
